theory Spec2Isabelle
  imports Main "HOL-Library.AList" "HOL-Library.Multiset"
begin

section \<open>Values and exceptions of the Python program\<close>

text \<open>
  The orchestrator (\<^verbatim>\<open>run_api.py\<close>) works on values decoded from JSON: the workflow
  template, the engine's replies and the events of the push channel. A decoded dictionary
  keeps its insertion order, which \<^verbatim>\<open>find_node_id\<close> iterates, so a dictionary is an
  association list; a float is a mantissa and a binary exponent (no operation below looks
  inside one except for truthiness).
\<close>

datatype json =
    JNull
  | JBool bool
  | JInt int
  | JFloat int int
  | JStr string
  | JList "json list"
  | JDict "(string \<times> json) list"

text \<open>
  The exceptions the code can meet. \<open>OtherError\<close> is any exception raised by an external
  collaborator (the HTTP and WebSocket libraries, base64), carrying its message.
\<close>

datatype exn =
    AttributeError
  | TypeError
  | KeyError string
  | JSONDecodeError
  | WebSocketTimeoutException
  | OtherError string

text \<open>Python's truth value of a decoded value (\<^verbatim>\<open>if x:\<close>, \<^verbatim>\<open>not x\<close>).\<close>

fun truthy :: "json \<Rightarrow> bool" where
  "truthy JNull = False"
| "truthy (JBool b) = b"
| "truthy (JInt i) = (i \<noteq> 0)"
| "truthy (JFloat m e) = (m \<noteq> 0)"
| "truthy (JStr s) = (s \<noteq> [])"
| "truthy (JList xs) = (xs \<noteq> [])"
| "truthy (JDict d) = (d \<noteq> [])"

text \<open>\<^verbatim>\<open>d.get(key, default)\<close> on a dictionary.\<close>

definition dict_get :: "(string \<times> json) list \<Rightarrow> string \<Rightarrow> json \<Rightarrow> json" where
  "dict_get d k dflt = (case map_of d k of None \<Rightarrow> dflt | Some v \<Rightarrow> v)"

text \<open>\<^verbatim>\<open>x.get(key, default)\<close> on any value: only a dictionary has the method.\<close>

definition py_get :: "json \<Rightarrow> string \<Rightarrow> json \<Rightarrow> exn + json" where
  "py_get x k dflt = (case x of JDict d \<Rightarrow> Inr (dict_get d k dflt) | _ \<Rightarrow> Inl AttributeError)"

text \<open>\<^verbatim>\<open>s.startswith(p)\<close>, \<^verbatim>\<open>s.endswith(p)\<close> and \<^verbatim>\<open>p in s\<close> on strings.\<close>

fun startswith :: "string \<Rightarrow> string \<Rightarrow> bool" where
  "startswith s [] = True"
| "startswith [] (p # ps) = False"
| "startswith (c # cs) (p # ps) = (c = p \<and> startswith cs ps)"

definition endswith :: "string \<Rightarrow> string \<Rightarrow> bool" where
  "endswith s p = startswith (rev s) (rev p)"

fun contains_str :: "string \<Rightarrow> string \<Rightarrow> bool" where
  "contains_str [] p = (p = [])"
| "contains_str (c # cs) p = (startswith (c # cs) p \<or> contains_str cs p)"

text \<open>
  \<^verbatim>\<open>key in x\<close> for a string key: among the keys of a dictionary, among the elements of a
  list, as a substring of a string; any other value is not iterable.
\<close>

definition py_contains :: "json \<Rightarrow> string \<Rightarrow> exn + bool" where
  "py_contains x k =
     (case x of
        JDict d \<Rightarrow> Inr (List.member (map fst d) k)
      | JList xs \<Rightarrow> Inr (List.member xs (JStr k))
      | JStr s \<Rightarrow> Inr (contains_str s k)
      | _ \<Rightarrow> Inl TypeError)"

text \<open>
  \<^verbatim>\<open>x[key]\<close> for a string key: the entry of a dictionary (\<open>KeyError\<close> when absent); a list
  or a string wants an integer index, the other values have no subscript.
\<close>

definition py_getitem :: "json \<Rightarrow> string \<Rightarrow> exn + json" where
  "py_getitem x k =
     (case x of
        JDict d \<Rightarrow> (case map_of d k of None \<Rightarrow> Inl (KeyError k) | Some v \<Rightarrow> Inr v)
      | _ \<Rightarrow> Inl TypeError)"

section \<open>Node lookup\<close>

text \<open>
  \<^verbatim>\<open>
  def find_node_id(workflow, node_title=None, node_type=None):
      for node_id, node_data in workflow.items():
          if isinstance(node_data, dict):
              if node_title and node_data.get("_meta", {}).get("title") == node_title:
                  return node_id
              if node_type and node_data.get("class_type") == node_type:
                  return node_id
      return None
  \<close>
  The two tests of one node. \<^verbatim>\<open>node_title and ...\<close> stops at a title that is \<open>None\<close> or
  empty, before \<^verbatim>\<open>_meta\<close> is read; otherwise \<^verbatim>\<open>.get("title")\<close> is called on whatever
  \<^verbatim>\<open>_meta\<close> holds, and raises when that is not a dictionary.
\<close>

definition title_matches :: "(string \<times> json) list \<Rightarrow> string option \<Rightarrow> exn + bool" where
  "title_matches node_data node_title =
     (case node_title of
        None \<Rightarrow> Inr False
      | Some t \<Rightarrow>
          if t = [] then Inr False
          else (case dict_get node_data ''_meta'' (JDict []) of
                  JDict meta \<Rightarrow> Inr (map_of meta ''title'' = Some (JStr t))
                | _ \<Rightarrow> Inl AttributeError))"

definition type_matches :: "(string \<times> json) list \<Rightarrow> string option \<Rightarrow> bool" where
  "type_matches node_data node_type =
     (case node_type of
        None \<Rightarrow> False
      | Some ty \<Rightarrow> ty \<noteq> [] \<and> map_of node_data ''class_type'' = Some (JStr ty))"

fun find_node_id ::
  "(string \<times> json) list \<Rightarrow> string option \<Rightarrow> string option \<Rightarrow> exn + string option" where
  "find_node_id [] node_title node_type = Inr None"
| "find_node_id ((node_id, node_data) # items) node_title node_type =
     (case node_data of
        JDict d \<Rightarrow>
          (case title_matches d node_title of
             Inl e \<Rightarrow> Inl e
           | Inr True \<Rightarrow> Inr (Some node_id)
           | Inr False \<Rightarrow>
               if type_matches d node_type then Inr (Some node_id)
               else find_node_id items node_title node_type)
      | _ \<Rightarrow> find_node_id items node_title node_type)"

section \<open>Output extraction\<close>

text \<open>
  \<^verbatim>\<open>
  def parse_video_path_from_output(outputs):
      if "text" not in outputs or not isinstance(outputs["text"], list) or not outputs["text"]:
          return None
      stringified_list = outputs["text"][0]
      try:
          parsed_list = json.loads(stringified_list)
          if isinstance(parsed_list, list) and len(parsed_list) > 1:
              path_list = parsed_list[1]
              if isinstance(path_list, list):
                  for path in path_list:
                      if isinstance(path, str) and path.endswith(('.mp4', '.webm', '.avi', '.mov')):
                          return path
      except Exception:
          return None
      return None
  \<close>
  The decoder of the standard library is a parameter \<open>loads\<close> (from a string to a decoded
  value or an exception); \<^verbatim>\<open>json.loads\<close> of a value that is not a string raises
  \<open>TypeError\<close>.
\<close>

definition media_suffixes :: "string list" where
  "media_suffixes = [''.mp4'', ''.webm'', ''.avi'', ''.mov'']"

definition is_video_path :: "json \<Rightarrow> bool" where
  "is_video_path path =
     (case path of JStr s \<Rightarrow> list_ex (endswith s) media_suffixes | _ \<Rightarrow> False)"

fun first_video_path :: "json list \<Rightarrow> string option" where
  "first_video_path [] = None"
| "first_video_path (path # paths) =
     (case path of
        JStr s \<Rightarrow> if list_ex (endswith s) media_suffixes then Some s else first_video_path paths
      | _ \<Rightarrow> first_video_path paths)"

definition json_loads_value :: "(string \<Rightarrow> exn + json) \<Rightarrow> json \<Rightarrow> exn + json" where
  "json_loads_value loads v = (case v of JStr s \<Rightarrow> loads s | _ \<Rightarrow> Inl TypeError)"

definition parse_stringified :: "(string \<Rightarrow> exn + json) \<Rightarrow> json \<Rightarrow> string option" where
  "parse_stringified loads stringified_list =
     (case json_loads_value loads stringified_list of
        Inl e \<Rightarrow> None
      | Inr (JList (first # path_list # more)) \<Rightarrow>
          (case path_list of JList paths \<Rightarrow> first_video_path paths | _ \<Rightarrow> None)
      | Inr _ \<Rightarrow> None)"

definition parse_video_path_from_output ::
  "(string \<Rightarrow> exn + json) \<Rightarrow> json \<Rightarrow> exn + string option" where
  "parse_video_path_from_output loads outputs =
     (case outputs of
        JDict d \<Rightarrow>
          (case map_of d ''text'' of
             Some (JList (stringified_list # more)) \<Rightarrow> Inr (parse_stringified loads stringified_list)
           | _ \<Rightarrow> Inr None)
      | JList xs \<Rightarrow> if List.member xs (JStr ''text'') then Inl TypeError else Inr None
      | JStr s \<Rightarrow> if contains_str s ''text'' then Inl TypeError else Inr None
      | _ \<Rightarrow> Inl TypeError)"

section \<open>A reference decoder\<close>

text \<open>
  The theorems below hold for every decoder \<open>loads\<close>. To run the code on the concrete
  payloads of the scenarios, \<open>json_loads\<close> decodes the fragment of JSON they use: white
  space, \<^verbatim>\<open>null\<close>, \<^verbatim>\<open>true\<close>, \<^verbatim>\<open>false\<close>, integers, strings (with the escapes of the
  quote, the backslash and the slash), arrays and
  objects (a repeated key keeps its first place and its last value, as in Python). Text
  outside the fragment is answered with \<open>JSONDecodeError\<close>. The recursion is bounded by the
  length of the text, every call consuming a character.
\<close>

definition dquote :: char where
  "dquote = CHR 0x22"

definition is_ws :: "char \<Rightarrow> bool" where
  "is_ws c = (c = CHR '' '' \<or> c = CHR 0x0A \<or> c = CHR 0x0D \<or> c = CHR 0x09)"

definition is_digit :: "char \<Rightarrow> bool" where
  "is_digit c = (48 \<le> (of_char c :: nat) \<and> (of_char c :: nat) \<le> 57)"

fun skip_ws :: "string \<Rightarrow> string" where
  "skip_ws [] = []"
| "skip_ws (c # cs) = (if is_ws c then skip_ws cs else c # cs)"

fun scan_string :: "string \<Rightarrow> string \<Rightarrow> (string \<times> string) option" where
  "scan_string acc [] = None"
| "scan_string acc [c] = (if c = dquote then Some (rev acc, []) else None)"
| "scan_string acc (c # e # cs) =
     (if c = dquote then Some (rev acc, e # cs)
      else if c = CHR 0x5C then
        (if e = dquote \<or> e = CHR 0x5C \<or> e = CHR ''/'' then scan_string (e # acc) cs else None)
      else if (of_char c :: nat) < 32 then None
      else scan_string (c # acc) (e # cs))"

fun scan_digits :: "nat \<Rightarrow> string \<Rightarrow> nat \<times> string" where
  "scan_digits acc [] = (acc, [])"
| "scan_digits acc (c # cs) =
     (if is_digit c then scan_digits (10 * acc + (of_char c - 48)) cs else (acc, c # cs))"

definition scan_number :: "string \<Rightarrow> (json \<times> string) option" where
  "scan_number s =
     (let negative = startswith s ''-'';
          body = (if negative then tl s else s)
      in case body of
           [] \<Rightarrow> None
         | c # cs \<Rightarrow>
             if \<not> is_digit c then None
             else if c = CHR ''0'' \<and> cs \<noteq> [] \<and> is_digit (hd cs) then None
             else (case scan_digits 0 body of
                     (n, rest) \<Rightarrow>
                       if rest \<noteq> [] \<and> List.member ''.eE'' (hd rest) then None
                       else Some (JInt (if negative then - int n else int n), rest)))"

fun parse_value :: "nat \<Rightarrow> string \<Rightarrow> (json \<times> string) option"
  and parse_elements :: "nat \<Rightarrow> json list \<Rightarrow> string \<Rightarrow> (json \<times> string) option"
  and parse_members :: "nat \<Rightarrow> (string \<times> json) list \<Rightarrow> string \<Rightarrow> (json \<times> string) option"
where
  "parse_value 0 s = None"
| "parse_value (Suc n) s =
     (case skip_ws s of
        [] \<Rightarrow> None
      | c # cs \<Rightarrow>
          if c = dquote then
            (case scan_string [] cs of None \<Rightarrow> None | Some (str, rest) \<Rightarrow> Some (JStr str, rest))
          else if c = CHR ''['' then
            (if startswith (skip_ws cs) '']'' then Some (JList [], tl (skip_ws cs))
             else parse_elements n [] cs)
          else if c = CHR ''{'' then
            (if startswith (skip_ws cs) ''}'' then Some (JDict [], tl (skip_ws cs))
             else parse_members n [] cs)
          else if startswith (c # cs) ''null'' then Some (JNull, drop 4 (c # cs))
          else if startswith (c # cs) ''true'' then Some (JBool True, drop 4 (c # cs))
          else if startswith (c # cs) ''false'' then Some (JBool False, drop 5 (c # cs))
          else scan_number (c # cs))"
| "parse_elements 0 acc s = None"
| "parse_elements (Suc n) acc s =
     (case parse_value n s of
        None \<Rightarrow> None
      | Some (v, rest) \<Rightarrow>
          if startswith (skip_ws rest) '','' then parse_elements n (acc @ [v]) (tl (skip_ws rest))
          else if startswith (skip_ws rest) '']'' then Some (JList (acc @ [v]), tl (skip_ws rest))
          else None)"
| "parse_members 0 acc s = None"
| "parse_members (Suc n) acc s =
     (case skip_ws s of
        [] \<Rightarrow> None
      | c # cs \<Rightarrow>
          if c \<noteq> dquote then None
          else (case scan_string [] cs of
                  None \<Rightarrow> None
                | Some (k, rest) \<Rightarrow>
                    if \<not> startswith (skip_ws rest) '':'' then None
                    else (case parse_value n (tl (skip_ws rest)) of
                            None \<Rightarrow> None
                          | Some (v, rest') \<Rightarrow>
                              if startswith (skip_ws rest') '','' then
                                parse_members n (AList.update k v acc) (tl (skip_ws rest'))
                              else if startswith (skip_ws rest') ''}'' then
                                Some (JDict (AList.update k v acc), tl (skip_ws rest'))
                              else None)))"

definition json_loads :: "string \<Rightarrow> exn + json" where
  "json_loads s =
     (case parse_value (Suc (length s)) s of
        None \<Rightarrow> Inl JSONDecodeError
      | Some (v, rest) \<Rightarrow> if skip_ws rest = [] then Inr v else Inl JSONDecodeError)"

section \<open>The process and its environment\<close>

text \<open>
  The module's globals. \<^verbatim>\<open>workflow_api_json\<close> holds a reference to the loaded template;
  \<open>heap\<close> is the store of the objects built by \<^verbatim>\<open>json.load\<close> and \<^verbatim>\<open>json.loads\<close>, one
  cell per decoded document, addressed by its index. A decoded document is a tree that
  shares nothing with any other, so a cell holds the whole tree, and a write through a
  reference changes the cell it points into and no other.
\<close>

record process =
  server_address :: string
  client_id :: string
  workflow_api_json :: nat
  VERBOSE :: bool
  heap :: "json list"

text \<open>
  What one request meets outside the process: the reply to the image upload, to the job
  submission and to the history request (the decoded body, or the exception raised by
  the request or by the decoding of its reply), whether the WebSocket connects, the
  frames the channel delivers, \<^verbatim>\<open>base64.b64decode\<close>, and the draw of the random
  generator.
\<close>

datatype frame = Text string | Binary | Broken exn

record env =
  b64decode :: "string \<Rightarrow> exn + string"
  upload_reply :: "exn + json"
  entropy :: nat
  prompt_reply :: "exn + json"
  ws_connect :: "exn option"
  ws_arrivals :: "(nat \<times> frame) list"
  history_reply :: "exn + json"

text \<open>The network calls a request makes, in order.\<close>

datatype net_call =
    UploadImage string "string \<times> string \<times> string"
  | PostPrompt string json
  | WsConnect string string
  | GetHistory string json

datatype image_data = Base64 string | UploadFile string string string

datatype content = Error string | ErrorOf exn | GeneratedVideoPath string

datatype response = JSONResponse nat content

section \<open>Waiting for completion\<close>

text \<open>
  \<^verbatim>\<open>
  ws.connect(f"ws://{server_address}/ws?clientId={client_id}")
  ws.settimeout(300)
  while True:
      out = ws.recv()
      if isinstance(out, str):
          message = json.loads(out)
          if message.get('type') == 'executed' and message.get('data', {}).get('node') == target_node_id:
              outputs = message.get('data', {}).get('output', {})
              return parse_video_path_from_output(outputs)
  \<close>
  The timeout set on the socket bounds each blocking \<^verbatim>\<open>recv\<close>: a frame that arrives
  \<open>delay\<close> seconds after the call began is returned when \<open>delay\<close> is below the timeout,
  and \<open>WebSocketTimeoutException\<close> is raised after the timeout otherwise. The channel is
  the list of the frames to come, each with its delay; a run that reads past the list is
  not decided by it (\<open>None\<close>). The result carries the seconds waited so far.
\<close>

definition ws_timeout :: nat where
  "ws_timeout = 300"

definition is_target_executed :: "json \<Rightarrow> string \<Rightarrow> exn + bool" where
  "is_target_executed message target_node_id =
     (case py_get message ''type'' JNull of
        Inl e \<Rightarrow> Inl e
      | Inr ty \<Rightarrow>
          if ty = JStr ''executed'' then
            (case py_get message ''data'' (JDict []) of
               Inl e \<Rightarrow> Inl e
             | Inr data \<Rightarrow>
                 (case py_get data ''node'' JNull of
                    Inl e \<Rightarrow> Inl e
                  | Inr node \<Rightarrow> Inr (node = JStr target_node_id)))
          else Inr False)"

definition event_output :: "json \<Rightarrow> exn + json" where
  "event_output message =
     (case py_get message ''data'' (JDict []) of
        Inl e \<Rightarrow> Inl e
      | Inr data \<Rightarrow> py_get data ''output'' (JDict []))"

fun listening ::
  "(string \<Rightarrow> exn + json) \<Rightarrow> string \<Rightarrow> (nat \<times> frame) list \<Rightarrow> nat
     \<Rightarrow> ((exn + string option) \<times> nat) option" where
  "listening loads target_node_id [] waited = None"
| "listening loads target_node_id ((delay, out) # later) waited =
     (if ws_timeout \<le> delay then Some (Inl WebSocketTimeoutException, waited + ws_timeout)
      else
        (case out of
           Broken e \<Rightarrow> Some (Inl e, waited + delay)
         | Binary \<Rightarrow> listening loads target_node_id later (waited + delay)
         | Text s \<Rightarrow>
             (case loads s of
                Inl e \<Rightarrow> Some (Inl e, waited + delay)
              | Inr message \<Rightarrow>
                  (case is_target_executed message target_node_id of
                     Inl e \<Rightarrow> Some (Inl e, waited + delay)
                   | Inr False \<Rightarrow> listening loads target_node_id later (waited + delay)
                   | Inr True \<Rightarrow>
                       (case event_output message of
                          Inl e \<Rightarrow> Some (Inl e, waited + delay)
                        | Inr outputs \<Rightarrow>
                            Some (parse_video_path_from_output loads outputs, waited + delay))))))"

text \<open>
  \<^verbatim>\<open>
  history = get_history(prompt_id).get(prompt_id, {})
  if history and target_node_id in history.get('outputs', {}):
      return parse_video_path_from_output(history['outputs'][target_node_id])
  return None
  \<close>
  \<^verbatim>\<open>get_history\<close> answers \<^verbatim>\<open>{}\<close> when the request or the decoding raises. The job id
  is whatever the engine's reply held under \<^verbatim>\<open>prompt_id\<close>: a string finds its entry, a
  list or a dictionary cannot be hashed, any other value equals no key.
\<close>

definition get_history :: "env \<Rightarrow> json" where
  "get_history en = (case history_reply en of Inl e \<Rightarrow> JDict [] | Inr h \<Rightarrow> h)"

definition py_get_key :: "json \<Rightarrow> json \<Rightarrow> json \<Rightarrow> exn + json" where
  "py_get_key x key dflt =
     (case x of
        JDict d \<Rightarrow>
          (case key of
             JStr k \<Rightarrow> Inr (dict_get d k dflt)
           | JList xs \<Rightarrow> Inl TypeError
           | JDict kd \<Rightarrow> Inl TypeError
           | _ \<Rightarrow> Inr dflt)
      | _ \<Rightarrow> Inl AttributeError)"

definition polling ::
  "(string \<Rightarrow> exn + json) \<Rightarrow> env \<Rightarrow> json \<Rightarrow> string \<Rightarrow> exn + string option" where
  "polling loads en prompt_id target_node_id =
     (case py_get_key (get_history en) prompt_id (JDict []) of
        Inl e \<Rightarrow> Inl e
      | Inr history \<Rightarrow>
          if \<not> truthy history then Inr None
          else
            (case py_get history ''outputs'' (JDict []) of
               Inl e \<Rightarrow> Inl e
             | Inr outs \<Rightarrow>
                 (case py_contains outs target_node_id of
                    Inl e \<Rightarrow> Inl e
                  | Inr False \<Rightarrow> Inr None
                  | Inr True \<Rightarrow>
                      (case py_getitem outs target_node_id of
                         Inl e \<Rightarrow> Inl e
                       | Inr outputs \<Rightarrow> parse_video_path_from_output loads outputs))))"

text \<open>
  \<^verbatim>\<open>get_final_video_path\<close>: the push phase, and the pull phase when the push phase ended
  in an exception (a refused connection, the timeout, a transport error, a message that
  cannot be read). An exception of the pull phase leaves the function.
\<close>

definition get_final_video_path ::
  "(string \<Rightarrow> exn + json) \<Rightarrow> env \<Rightarrow> process \<Rightarrow> json \<Rightarrow> string
     \<Rightarrow> ((exn + string option) \<times> net_call list) option" where
  "get_final_video_path loads en p prompt_id target_node_id =
     (let connect = WsConnect (server_address p) (client_id p);
          pull = GetHistory (server_address p) prompt_id
      in case ws_connect en of
           Some e \<Rightarrow> Some (polling loads en prompt_id target_node_id, [connect, pull])
         | None \<Rightarrow>
             (case listening loads target_node_id (ws_arrivals en) 0 of
                None \<Rightarrow> None
              | Some (Inr video_path, waited) \<Rightarrow> Some (Inr video_path, [connect])
              | Some (Inl e, waited) \<Rightarrow>
                  Some (polling loads en prompt_id target_node_id, [connect, pull])))"

section \<open>The request handler\<close>

text \<open>
  \<^verbatim>\<open>
  def upload_image(image_data):
      if isinstance(image_data, str):
          img_bytes = base64.b64decode(image_data)
          files = {'image': ("image.png", img_bytes, 'image/png')}
      else:
          files = {'image': (image_data.filename, image_data.file.read(), image_data.content_type)}
      response = requests.post(f"http://{server_address}/upload/image", files=files, data=data)
      response.raise_for_status()
      return response.json()['name']
  \<close>
\<close>

definition upload_image :: "env \<Rightarrow> process \<Rightarrow> image_data \<Rightarrow> (exn + json) \<times> net_call list" where
  "upload_image en p img =
     (let post = (\<lambda>files.
            (case upload_reply en of Inl e \<Rightarrow> Inl e | Inr body \<Rightarrow> py_getitem body ''name'',
             [UploadImage (server_address p) files]))
      in case img of
           Base64 s \<Rightarrow>
             (case b64decode en s of
                Inl e \<Rightarrow> (Inl e, [])
              | Inr img_bytes \<Rightarrow> post (''image.png'', img_bytes, ''image/png''))
         | UploadFile filename data content_type \<Rightarrow> post (filename, data, content_type))"

text \<open>
  \<^verbatim>\<open>prompt_workflow[node_id]["inputs"][field] = value\<close> on the workflow stored at address
  \<open>a\<close>. An existing field keeps its place, a new one is appended.
\<close>

definition set_input ::
  "json list \<Rightarrow> nat \<Rightarrow> string \<Rightarrow> string \<Rightarrow> json \<Rightarrow> exn + json list" where
  "set_input h a node_id field v =
     (case h ! a of
        JDict workflow \<Rightarrow>
          (case map_of workflow node_id of
             None \<Rightarrow> Inl (KeyError node_id)
           | Some (JDict node) \<Rightarrow>
               (case map_of node ''inputs'' of
                  None \<Rightarrow> Inl (KeyError ''inputs'')
                | Some (JDict inputs) \<Rightarrow>
                    Inr (h[a := JDict (AList.update node_id
                           (JDict (AList.update ''inputs''
                              (JDict (AList.update field v inputs)) node)) workflow)])
                | Some _ \<Rightarrow> Inl TypeError)
           | Some _ \<Rightarrow> Inl TypeError)
      | _ \<Rightarrow> Inl TypeError)"

text \<open>\<^verbatim>\<open>random.randint(a, b)\<close>: an integer from \<open>a\<close> to \<open>b\<close>, both included.\<close>

definition randint :: "int \<Rightarrow> int \<Rightarrow> nat \<Rightarrow> int" where
  "randint a b raw = a + int (raw mod nat (b - a + 1))"

text \<open>The truth value of an \<^verbatim>\<open>Optional[str]\<close>: \<open>None\<close> and the empty string are false.\<close>

definition found :: "string option \<Rightarrow> bool" where
  "found node_id = (case node_id of None \<Rightarrow> False | Some s \<Rightarrow> s \<noteq> [])"

fun join :: "string \<Rightarrow> string list \<Rightarrow> string" where
  "join sep [] = []"
| "join sep [x] = x"
| "join sep (x # y # ys) = x @ sep @ join sep (y # ys)"

text \<open>
  \<^verbatim>\<open>
  missing = [title for title, node_id in [("load_image", image_node_id), ...] if not node_id]
  return JSONResponse(status_code=404, content={"error":
      f"Could not find required nodes. Missing titles: {', '.join(missing)}"})
  \<close>
\<close>

definition missing_titles :: "(string \<times> string option) list \<Rightarrow> string list" where
  "missing_titles slots = map fst (filter (\<lambda>slot. \<not> found (snd slot)) slots)"

definition not_found_response :: "(string \<times> string option) list \<Rightarrow> response" where
  "not_found_response slots =
     JSONResponse 404
       (Error (''Could not find required nodes. Missing titles: '' @ join '', '' (missing_titles slots)))"

text \<open>
  The five lookups of the handler, in the order of the source; the first that raises ends
  them.
\<close>

definition locate ::
  "(string \<times> json) list
     \<Rightarrow> exn + (string option \<times> string option \<times> string option \<times> string option \<times> string option)" where
  "locate workflow =
     (case find_node_id workflow (Some ''load_image'') None of
        Inl e \<Rightarrow> Inl e
      | Inr image_node_id \<Rightarrow>
     (case find_node_id workflow (Some ''positive_prompt'') None of
        Inl e \<Rightarrow> Inl e
      | Inr pos_prompt_node_id \<Rightarrow>
     (case find_node_id workflow (Some ''negative_prompt'') None of
        Inl e \<Rightarrow> Inl e
      | Inr neg_prompt_node_id \<Rightarrow>
     (case find_node_id workflow (Some ''output_paths'') None of
        Inl e \<Rightarrow> Inl e
      | Inr output_node_id \<Rightarrow>
     (case find_node_id workflow None (Some ''KSampler'') of
        Inl e \<Rightarrow> Inl e
      | Inr k_sampler_node_id \<Rightarrow>
          Inr (image_node_id, pos_prompt_node_id, neg_prompt_node_id, output_node_id,
               k_sampler_node_id))))))"

text \<open>
  The writes into the request's copy, after the upload:
  \<^verbatim>\<open>
  prompt_workflow[image_node_id]["inputs"]["image"] = image_filename
  prompt_workflow[pos_prompt_node_id]["inputs"]["text"] = prompt
  prompt_workflow[neg_prompt_node_id]["inputs"]["text"] = negative_prompt
  if k_sampler_node_id:
      random_seed = random.randint(0, 999999999999999)
      prompt_workflow[k_sampler_node_id]["inputs"]["seed"] = random_seed
  \<close>
  A write that raises leaves the earlier ones in the copy (the second component).
\<close>

definition inject ::
  "env \<Rightarrow> json list \<Rightarrow> nat \<Rightarrow> string \<Rightarrow> string \<Rightarrow> string \<Rightarrow> string option
     \<Rightarrow> json \<Rightarrow> string \<Rightarrow> string \<Rightarrow> exn option \<times> json list" where
  "inject en h a image_node_id pos_prompt_node_id neg_prompt_node_id k_sampler_node_id
          image_filename prompt negative_prompt =
     (case set_input h a image_node_id ''image'' image_filename of
        Inl e \<Rightarrow> (Some e, h)
      | Inr h1 \<Rightarrow>
     (case set_input h1 a pos_prompt_node_id ''text'' (JStr prompt) of
        Inl e \<Rightarrow> (Some e, h1)
      | Inr h2 \<Rightarrow>
     (case set_input h2 a neg_prompt_node_id ''text'' (JStr negative_prompt) of
        Inl e \<Rightarrow> (Some e, h2)
      | Inr h3 \<Rightarrow>
          if found k_sampler_node_id then
            (case set_input h3 a (the k_sampler_node_id) ''seed''
                    (JInt (randint 0 999999999999999 (entropy en))) of
               Inl e \<Rightarrow> (Some e, h3)
             | Inr h4 \<Rightarrow> (None, h4))
          else (None, h3))))"

text \<open>
  \<^verbatim>\<open>
  queued_item = queue_prompt(prompt_workflow)
  if not queued_item or 'prompt_id' not in queued_item:
      return JSONResponse(status_code=500, content={"error": "Failed to queue prompt in ComfyUI."})
  prompt_id = queued_item['prompt_id']
  video_path = get_final_video_path(prompt_id, output_node_id)
  if not video_path:
      return JSONResponse(status_code=500, content={"error": "Generation finished, but ..."})
  return JSONResponse(content={"generated_video_path": video_path})
  \<close>
  \<^verbatim>\<open>queue_prompt\<close> posts \<^verbatim>\<open>{"prompt": prompt_workflow, "client_id": client_id}\<close> and
  answers \<open>None\<close> when anything raises.
\<close>

definition queue_prompt :: "env \<Rightarrow> process \<Rightarrow> json \<Rightarrow> json option \<times> net_call list" where
  "queue_prompt en p prompt_workflow =
     (case prompt_reply en of Inl e \<Rightarrow> None | Inr item \<Rightarrow> Some item,
      [PostPrompt (server_address p)
         (JDict [(''prompt'', prompt_workflow), (''client_id'', JStr (client_id p))])])"

definition queue_failed :: response where
  "queue_failed = JSONResponse 500 (Error ''Failed to queue prompt in ComfyUI.'')"

definition extraction_failed :: response where
  "extraction_failed =
     JSONResponse 500
       (Error ''Generation finished, but failed to extract video path. Run with --verbose for details.'')"

definition respond :: "exn + string option \<Rightarrow> response" where
  "respond r =
     (case r of
        Inl e \<Rightarrow> JSONResponse 500 (ErrorOf e)
      | Inr None \<Rightarrow> extraction_failed
      | Inr (Some video_path) \<Rightarrow>
          if video_path = [] then extraction_failed
          else JSONResponse 200 (GeneratedVideoPath video_path))"

definition submit_and_wait ::
  "(string \<Rightarrow> exn + json) \<Rightarrow> env \<Rightarrow> process \<Rightarrow> json \<Rightarrow> string
     \<Rightarrow> (response \<times> net_call list) option" where
  "submit_and_wait loads en p prompt_workflow output_node_id =
     (case queue_prompt en p prompt_workflow of
        (queued_item, posted) \<Rightarrow>
          (case queued_item of
             None \<Rightarrow> Some (queue_failed, posted)
           | Some item \<Rightarrow>
               if \<not> truthy item then Some (queue_failed, posted)
               else
                 (case py_contains item ''prompt_id'' of
                    Inl e \<Rightarrow> Some (JSONResponse 500 (ErrorOf e), posted)
                  | Inr False \<Rightarrow> Some (queue_failed, posted)
                  | Inr True \<Rightarrow>
                      (case py_getitem item ''prompt_id'' of
                         Inl e \<Rightarrow> Some (JSONResponse 500 (ErrorOf e), posted)
                       | Inr prompt_id \<Rightarrow>
                           (case get_final_video_path loads en p prompt_id output_node_id of
                              None \<Rightarrow> None
                            | Some (r, calls) \<Rightarrow> Some (respond r, posted @ calls))))))"

text \<open>
  \<^verbatim>\<open>generate_video\<close>. \<^verbatim>\<open>json.loads(json.dumps(workflow_api_json))\<close> builds a new document
  equal to the template: a new cell at the end of the heap, which every later read and
  write goes through. Every exception is answered with status 500 and its text. The
  result is the response, the process afterwards and the network calls made; \<open>None\<close>
  when the channel's frames do not decide the wait.
\<close>

definition generate_video ::
  "(string \<Rightarrow> exn + json) \<Rightarrow> env \<Rightarrow> process \<Rightarrow> image_data \<Rightarrow> string \<Rightarrow> string
     \<Rightarrow> (response \<times> process \<times> net_call list) option" where
  "generate_video loads en p img prompt negative_prompt =
     (let prompt_workflow = length (heap p);
          h = heap p @ [heap p ! workflow_api_json p];
          p0 = p\<lparr>heap := h\<rparr>
      in case h ! prompt_workflow of
           JDict workflow \<Rightarrow>
             (case locate workflow of
                Inl e \<Rightarrow> Some (JSONResponse 500 (ErrorOf e), p0, [])
              | Inr (image_node_id, pos_prompt_node_id, neg_prompt_node_id, output_node_id,
                     k_sampler_node_id) \<Rightarrow>
                  if \<not> (found image_node_id \<and> found pos_prompt_node_id
                          \<and> found neg_prompt_node_id \<and> found output_node_id) then
                    Some (not_found_response
                            [(''load_image'', image_node_id),
                             (''positive_prompt'', pos_prompt_node_id),
                             (''negative_prompt'', neg_prompt_node_id),
                             (''output_paths'', output_node_id)], p0, [])
                  else
                    (case upload_image en p img of
                       (Inl e, uploaded) \<Rightarrow> Some (JSONResponse 500 (ErrorOf e), p0, uploaded)
                     | (Inr image_filename, uploaded) \<Rightarrow>
                         (case inject en h prompt_workflow (the image_node_id)
                                 (the pos_prompt_node_id) (the neg_prompt_node_id)
                                 k_sampler_node_id image_filename prompt negative_prompt of
                            (Some e, h') \<Rightarrow>
                              Some (JSONResponse 500 (ErrorOf e), p\<lparr>heap := h'\<rparr>, uploaded)
                          | (None, h') \<Rightarrow>
                              (case submit_and_wait loads en p (h' ! prompt_workflow)
                                      (the output_node_id) of
                                 None \<Rightarrow> None
                               | Some (resp, calls) \<Rightarrow>
                                   Some (resp, p\<lparr>heap := h'\<rparr>, uploaded @ calls)))))
         | _ \<Rightarrow> Some (JSONResponse 500 (ErrorOf AttributeError), p0, []))"

section \<open>Notions of the specification\<close>

text \<open>
  The display name of a node, in the specification's words: the label declared under
  \<^verbatim>\<open>_meta.title\<close>, when the node has one. \<open>meta_ok\<close> holds of a node whose \<^verbatim>\<open>_meta\<close>
  entry, when present, is a dictionary.
\<close>

definition display_name :: "json \<Rightarrow> json option" where
  "display_name node_data =
     (case node_data of
        JDict d \<Rightarrow> (case map_of d ''_meta'' of Some (JDict meta) \<Rightarrow> map_of meta ''title'' | _ \<Rightarrow> None)
      | _ \<Rightarrow> None)"

definition display_names :: "(string \<times> json) list \<Rightarrow> json list" where
  "display_names workflow = List.map_filter (\<lambda>item. display_name (snd item)) workflow"

definition meta_ok :: "json \<Rightarrow> bool" where
  "meta_ok node_data =
     (case node_data of
        JDict d \<Rightarrow> (case map_of d ''_meta'' of None \<Rightarrow> True | Some (JDict meta) \<Rightarrow> True | Some _ \<Rightarrow> False)
      | _ \<Rightarrow> True)"

text \<open>
  The pull response holds no output of the target node for the job: the job has no
  entry, or its entry has no \<^verbatim>\<open>outputs\<close>, or these are a dictionary without the node.
\<close>

definition no_output_entry :: "(string \<times> json) list \<Rightarrow> string \<Rightarrow> string \<Rightarrow> bool" where
  "no_output_entry hist prompt_id target_node_id =
     (case map_of hist prompt_id of
        None \<Rightarrow> True
      | Some (JDict job) \<Rightarrow>
          (case map_of job ''outputs'' of
             None \<Rightarrow> True
           | Some (JDict outs) \<Rightarrow> \<not> List.member (map fst outs) target_node_id
           | Some _ \<Rightarrow> False)
      | Some _ \<Rightarrow> False)"

text \<open>The push phase ended in an exception, so the pull phase runs.\<close>

definition push_failed :: "(string \<Rightarrow> exn + json) \<Rightarrow> env \<Rightarrow> string \<Rightarrow> bool" where
  "push_failed loads en target_node_id =
     (case ws_connect en of
        Some e \<Rightarrow> True
      | None \<Rightarrow>
          (case listening loads target_node_id (ws_arrivals en) 0 of
             Some (Inl e, waited) \<Rightarrow> True
           | _ \<Rightarrow> False))"

text \<open>
  A network call is scoped by an identifier when it is neither a job submission nor a
  connection of the push channel, or carries that identifier as its \<^verbatim>\<open>client_id\<close>.
\<close>

definition scoped_by :: "string \<Rightarrow> net_call \<Rightarrow> bool" where
  "scoped_by cid call =
     (case call of
        PostPrompt server body \<Rightarrow> py_getitem body ''client_id'' = Inr (JStr cid)
      | WsConnect server c \<Rightarrow> c = cid
      | _ \<Rightarrow> True)"

section \<open>Scenarios\<close>

text \<open>
  A template with the four titled slots and a sampler, the variants used below, a process
  that has loaded a template, and an engine that accepts the upload and the job.
\<close>

definition node :: "string \<Rightarrow> string \<Rightarrow> (string \<times> json) list \<Rightarrow> json" where
  "node class_type title inputs =
     JDict [(''class_type'', JStr class_type), (''_meta'', JDict [(''title'', JStr title)]),
            (''inputs'', JDict inputs)]"

definition full_template :: "(string \<times> json) list" where
  "full_template =
     [(''1'', node ''LoadImage'' ''load_image'' [(''image'', JStr ''old.png'')]),
      (''2'', node ''CLIPTextEncode'' ''positive_prompt'' [(''text'', JStr [])]),
      (''3'', node ''CLIPTextEncode'' ''negative_prompt'' [(''text'', JStr [])]),
      (''4'', node ''KSampler'' ''sampler'' [(''seed'', JInt 42)]),
      (''5'', node ''ShowText'' ''output_paths'' [])]"

definition no_negative_template :: "(string \<times> json) list" where
  "no_negative_template =
     [(''1'', node ''LoadImage'' ''load_image'' [(''image'', JStr ''old.png'')]),
      (''2'', node ''CLIPTextEncode'' ''positive_prompt'' [(''text'', JStr [])]),
      (''4'', node ''KSampler'' ''sampler'' [(''seed'', JInt 42)]),
      (''5'', node ''ShowText'' ''output_paths'' [])]"

definition empty_id_template :: "(string \<times> json) list" where
  "empty_id_template =
     [([], node ''LoadImage'' ''load_image'' [(''image'', JStr ''old.png'')]),
      (''2'', node ''CLIPTextEncode'' ''positive_prompt'' [(''text'', JStr [])]),
      (''4'', node ''KSampler'' ''sampler'' [(''seed'', JInt 42)]),
      (''5'', node ''ShowText'' ''output_paths'' [])]"

definition empty_sampler_id_template :: "(string \<times> json) list" where
  "empty_sampler_id_template =
     [(''1'', node ''LoadImage'' ''load_image'' [(''image'', JStr ''old.png'')]),
      (''2'', node ''CLIPTextEncode'' ''positive_prompt'' [(''text'', JStr [])]),
      (''3'', node ''CLIPTextEncode'' ''negative_prompt'' [(''text'', JStr [])]),
      ([], node ''KSampler'' ''sampler'' [(''seed'', JInt 42)]),
      (''5'', node ''ShowText'' ''output_paths'' [])]"

definition process_of :: "(string \<times> json) list \<Rightarrow> process" where
  "process_of template =
     \<lparr>server_address = ''127.0.0.1:8188'', client_id = ''c1'', workflow_api_json = 0,
      VERBOSE = False, heap = [JDict template]\<rparr>"

definition sample_image :: image_data where
  "sample_image = UploadFile ''cat.png'' ''PNG'' ''image/png''"

definition video_payload :: json where
  "video_payload = JDict [(''text'', JList [JStr ''[\"ignored\", [\"/out/video.mp4\"]]''])]"

definition progress_event :: string where
  "progress_event = ''{\"type\": \"progress\", \"data\": {\"value\": 1, \"max\": 20}}''"

fun escaped :: "string \<Rightarrow> string" where
  "escaped [] = []"
| "escaped (c # cs) =
     (if c = dquote \<or> c = CHR 0x5C then CHR 0x5C # c # escaped cs else c # escaped cs)"

definition executed_event :: string where
  "executed_event =
     ''{\"type\": \"executed\", \"data\": {\"node\": \"5\", \"output\": {\"text\": [\"''
     @ escaped ''[\"ignored\", [\"/out/video.mp4\"]]'' @ ''\"]}}}''"

definition engine :: "(nat \<times> frame) list \<Rightarrow> json \<Rightarrow> env" where
  "engine arrivals hist =
     \<lparr>b64decode = Inr, upload_reply = Inr (JDict [(''name'', JStr ''cat.png'')]), entropy = 7,
      prompt_reply = Inr (JDict [(''prompt_id'', JStr ''job1'')]), ws_connect = None,
      ws_arrivals = arrivals, history_reply = Inr hist\<rparr>"

definition injected_template :: "string \<Rightarrow> string \<Rightarrow> int \<Rightarrow> (string \<times> json) list" where
  "injected_template prompt negative_prompt seed =
     [(''1'', node ''LoadImage'' ''load_image'' [(''image'', JStr ''cat.png'')]),
      (''2'', node ''CLIPTextEncode'' ''positive_prompt'' [(''text'', JStr prompt)]),
      (''3'', node ''CLIPTextEncode'' ''negative_prompt'' [(''text'', JStr negative_prompt)]),
      (''4'', node ''KSampler'' ''sampler'' [(''seed'', JInt seed)]),
      (''5'', node ''ShowText'' ''output_paths'' [])]"

definition unparsable_history :: json where
  "unparsable_history =
     JDict [(''job1'', JDict [(''outputs'',
       JDict [(''5'', JDict [(''text'', JList [JStr ''[]''])])])])]"

section \<open>Properties of the node lookup\<close>

lemma title_matches_display:
  "meta_ok (JDict d) \<Longrightarrow> t \<noteq> [] \<Longrightarrow> title_matches d (Some t) = Inr (display_name (JDict d) = Some (JStr t))"
  by (auto simp: title_matches_def meta_ok_def display_name_def dict_get_def split: option.splits json.splits)

lemma find_by_title_none:
  "list_all (\<lambda>item. meta_ok (snd item)) workflow \<Longrightarrow> t \<noteq> [] \<Longrightarrow> JStr t \<notin> set (display_names workflow)
   \<Longrightarrow> find_node_id workflow (Some t) None = Inr None"
proof (induction workflow)
  case Nil
  then show ?case by simp
next
  case (Cons item workflow)
  obtain node_id node_data where item: "item = (node_id, node_data)" by (cases item)
  from Cons.prems have rest: "JStr t \<notin> set (display_names workflow)" and here: "display_name node_data \<noteq> Some (JStr t)"
    by (auto simp: display_names_def item List.map_filter_simps split: option.splits)
  from Cons.prems have ok: "meta_ok node_data" and oks: "list_all (\<lambda>item. meta_ok (snd item)) workflow"
    by (simp_all add: item)
  have ih: "find_node_id workflow (Some t) None = Inr None"
    using Cons.IH [OF oks Cons.prems(2) rest] .
  show ?case
  proof (cases node_data)
    case (JDict d)
    with ok here Cons.prems(2) ih show ?thesis
      by (simp add: item title_matches_display type_matches_def)
  qed (simp_all add: item ih)
qed

lemma display_names_Cons:
  "display_names ((i, nd) # workflow) =
     (case display_name nd of None \<Rightarrow> display_names workflow | Some x \<Rightarrow> x # display_names workflow)"
  by (simp add: display_names_def List.map_filter_simps split: option.split)

lemma display_names_mem:
  "(i, nd) \<in> set workflow \<Longrightarrow> display_name nd = Some x \<Longrightarrow> x \<in> set (display_names workflow)"
proof (induction workflow)
  case Nil
  then show ?case by simp
next
  case (Cons item workflow)
  obtain j nd' where item: "item = (j, nd')" by (cases item)
  show ?case
  proof (cases "(i, nd) = item")
    case True
    with Cons.prems(2) show ?thesis by (simp add: item display_names_Cons)
  next
    case False
    with Cons.prems have "(i, nd) \<in> set workflow" by simp
    then have "x \<in> set (display_names workflow)" using Cons.IH Cons.prems(2) by simp
    then show ?thesis by (simp add: item display_names_Cons split: option.split)
  qed
qed

lemma find_by_title_some:
  "list_all (\<lambda>item. meta_ok (snd item)) workflow \<Longrightarrow> t \<noteq> [] \<Longrightarrow> distinct (display_names workflow)
   \<Longrightarrow> (node_id, node_data) \<in> set workflow \<Longrightarrow> display_name node_data = Some (JStr t)
   \<Longrightarrow> find_node_id workflow (Some t) None = Inr (Some node_id)"
proof (induction workflow)
  case Nil
  then show ?case by simp
next
  case (Cons item workflow)
  obtain i nd where item: "item = (i, nd)" by (cases item)
  from Cons.prems(1) have ok: "meta_ok nd" and oks: "list_all (\<lambda>item. meta_ok (snd item)) workflow"
    by (simp_all add: item)
  show ?case
  proof (cases "display_name nd = Some (JStr t)")
    case True
    then obtain d where d: "nd = JDict d" by (cases nd) (simp_all add: display_name_def)
    from Cons.prems(3) True have fresh: "JStr t \<notin> set (display_names workflow)"
      by (simp add: item display_names_Cons)
    have "(node_id, node_data) \<notin> set workflow"
      using display_names_mem [of node_id node_data workflow "JStr t"] Cons.prems(5) fresh by blast
    with Cons.prems(4) have "node_id = i" by (simp add: item)
    with True ok Cons.prems(2) show ?thesis
      by (simp add: item d title_matches_display)
  next
    case False
    with Cons.prems(4,5) have mem: "(node_id, node_data) \<in> set workflow" by (auto simp: item)
    from Cons.prems(3) have dis: "distinct (display_names workflow)"
      by (cases "display_name nd") (simp_all add: item display_names_Cons)
    have ih: "find_node_id workflow (Some t) None = Inr (Some node_id)"
      using Cons.IH [OF oks Cons.prems(2) dis mem Cons.prems(5)] .
    show ?thesis
    proof (cases nd)
      case (JDict d)
      with ok False Cons.prems(2) ih show ?thesis
        by (simp add: item title_matches_display type_matches_def)
    qed (simp_all add: item ih)
  qed
qed

lemma display_names_mset: "mset workflow' = mset workflow \<Longrightarrow> mset (display_names workflow') = mset (display_names workflow)"
proof -
  assume eq: "mset workflow' = mset workflow"
  have "\<And>w. mset (display_names w) =
      image_mset (\<lambda>item. the (display_name (snd item))) (filter_mset (\<lambda>item. display_name (snd item) \<noteq> None) (mset w))"
    by (simp add: display_names_def map_filter_def comp_def)
  with eq show ?thesis by simp
qed

lemma title_matches_empty: "title_matches d (Some []) = Inr False" "title_matches d None = Inr False"
  by (simp_all add: title_matches_def)

lemma type_matches_empty: "type_matches d (Some []) = False" "type_matches d None = False"
  by (simp_all add: type_matches_def)

lemma find_node_id_empty_title: "find_node_id workflow (Some []) ty = find_node_id workflow None ty"
proof (induction workflow)
  case Nil
  show ?case by simp
next
  case (Cons item workflow)
  obtain i nd where "item = (i, nd)" by (cases item)
  with Cons show ?case by (cases nd) (simp_all add: title_matches_empty cong: if_cong)
qed

lemma find_node_id_empty_type: "find_node_id workflow t (Some []) = find_node_id workflow t None"
proof (induction workflow)
  case Nil
  show ?case by simp
next
  case (Cons item workflow)
  obtain i nd where "item = (i, nd)" by (cases item)
  with Cons show ?case by (cases nd) (simp_all add: type_matches_empty cong: sum.case_cong bool.case_cong)
qed

lemma find_node_id_no_identifier: "find_node_id workflow None None = Inr None"
proof (induction workflow)
  case Nil
  show ?case by simp
next
  case (Cons item workflow)
  obtain i nd where "item = (i, nd)" by (cases item)
  with Cons show ?case by (cases nd) (simp_all add: title_matches_empty type_matches_empty)
qed

text \<open>
  C10. A lookup by the empty title, or by the empty kind, finds nothing, whatever the graph
  holds: the empty identifier counts as no identifier, so a call that gives only empty
  identifiers answers \<open>None\<close>, also on a node whose declared title or kind is the empty
  string, and an empty identifier next to a real one changes nothing.
\<close>

theorem find_node_id_empty_identifier:
  "find_node_id workflow (Some []) None = Inr None
   \<and> find_node_id workflow None (Some []) = Inr None
   \<and> find_node_id workflow (Some []) (Some []) = Inr None
   \<and> find_node_id workflow (Some []) node_type = find_node_id workflow None node_type
   \<and> find_node_id workflow node_title (Some []) = find_node_id workflow node_title None
   \<and> find_node_id [(''7'', JDict [(''class_type'', JStr []), (''_meta'', JDict [(''title'', JStr [])])])]
         (Some []) (Some []) = Inr None"
  by (simp add: find_node_id_empty_title find_node_id_empty_type find_node_id_no_identifier)

text \<open>
  C9, as the claim states it, fails at the empty title: a graph whose only node is
  labelled with the empty string has pairwise-distinct display names, and the lookup of
  that label answers \<open>None\<close> instead of the node's id.
\<close>

theorem find_node_id_empty_title_counterexample:
  "display_name (JDict [(''_meta'', JDict [(''title'', JStr [])])]) = Some (JStr [])
   \<and> distinct (display_names [(''7'', JDict [(''_meta'', JDict [(''title'', JStr [])])])])
   \<and> find_node_id [(''7'', JDict [(''_meta'', JDict [(''title'', JStr [])])])] (Some []) None
       \<noteq> Inr (Some ''7'')"
  by (simp add: display_name_def display_names_def List.map_filter_simps title_matches_def
      type_matches_def)

text \<open>
  C9, amended. In a graph whose nodes' \<^verbatim>\<open>_meta\<close> entries are dictionaries and whose
  display names are pairwise distinct, the lookup of a non-empty title returns the id of
  the node that declares exactly this title, and every reordering of the graph gives the
  same answer.
\<close>

theorem find_node_id_unique_title:
  assumes "list_all (\<lambda>item. meta_ok (snd item)) workflow"
    and "distinct (display_names workflow)"
    and "t \<noteq> []"
    and "(node_id, node_data) \<in> set workflow"
    and "display_name node_data = Some (JStr t)"
    and "mset workflow' = mset workflow"
  shows "find_node_id workflow (Some t) None = Inr (Some node_id)
         \<and> find_node_id workflow' (Some t) None = Inr (Some node_id)"
proof
  show "find_node_id workflow (Some t) None = Inr (Some node_id)"
    using assms(1,3,2,4,5) by (rule find_by_title_some)
next
  from assms(6) have same: "set workflow' = set workflow"
    by (rule mset_eq_setD)
  with assms(1) have ok: "list_all (\<lambda>item. meta_ok (snd item)) workflow'"
    by (simp add: list_all_iff)
  from assms(6) have "mset (display_names workflow') = mset (display_names workflow)"
    by (rule display_names_mset)
  with assms(2) have dis: "distinct (display_names workflow')"
    by (metis mset_eq_imp_distinct_iff)
  from assms(4) same have mem: "(node_id, node_data) \<in> set workflow'"
    by simp
  show "find_node_id workflow' (Some t) None = Inr (Some node_id)"
    using ok assms(3) dis mem assms(5) by (rule find_by_title_some)
qed

theorem find_node_id_unique_title_witness:
  "find_node_id full_template (Some ''output_paths'') None = Inr (Some ''5'')
   \<and> find_node_id (rev full_template) (Some ''output_paths'') None = Inr (Some ''5'')"
proof -
  have ok: "list_all (\<lambda>item. meta_ok (snd item)) full_template"
    by (simp add: full_template_def node_def meta_ok_def)
  have dis: "distinct (display_names full_template)"
    by (simp add: full_template_def node_def display_names_def display_name_def
        List.map_filter_simps)
  have t: "''output_paths'' \<noteq> []"
    by simp
  have mem: "(''5'', node ''ShowText'' ''output_paths'' []) \<in> set full_template"
    by (simp add: full_template_def)
  have name: "display_name (node ''ShowText'' ''output_paths'' []) = Some (JStr ''output_paths'')"
    by (simp add: node_def display_name_def)
  have perm: "mset (rev full_template) = mset full_template"
    by simp
  show ?thesis
    using find_node_id_unique_title [OF ok dis t mem name perm] .
qed

section \<open>Properties of the output extractor\<close>

lemma first_video_path_find:
  "map_option JStr (first_video_path paths) = List.find is_video_path paths"
proof (induction paths)
  case Nil
  show ?case by simp
next
  case (Cons path paths)
  then show ?case by (cases path) (simp_all add: is_video_path_def)
qed

lemma first_video_path_suffix:
  "first_video_path paths = Some s \<Longrightarrow> list_ex (endswith s) media_suffixes"
proof (induction paths)
  case Nil
  then show ?case by simp
next
  case (Cons path paths)
  then show ?case by (cases path) (simp_all split: if_splits)
qed

lemma parse_stringified_suffix:
  assumes "parse_stringified loads v = Some s"
  shows "list_ex (endswith s) media_suffixes"
proof -
  from assms obtain paths where "first_video_path paths = Some s"
    by (auto simp: parse_stringified_def split: sum.splits json.splits list.splits)
  then show ?thesis by (rule first_video_path_suffix)
qed

lemma parse_video_path_dict:
  "parse_video_path_from_output loads (JDict d) = Inr None
   \<or> (\<exists>stringified_list. parse_video_path_from_output loads (JDict d)
         = Inr (parse_stringified loads stringified_list))"
  by (auto simp: parse_video_path_from_output_def split: option.split json.split list.split)

text \<open>
  C4, as the claim states it, fails on an input that is not a mapping: on \<^verbatim>\<open>None\<close> (a
  node whose output is \<^verbatim>\<open>null\<close>) the test \<^verbatim>\<open>"text" not in outputs\<close> raises
  \<open>TypeError\<close>, and in the pull phase the exception leaves \<^verbatim>\<open>get_final_video_path\<close>.
\<close>

theorem parse_video_path_raises_on_null:
  "parse_video_path_from_output json_loads JNull = Inl TypeError
   \<and> polling json_loads
        (engine [] (JDict [(''job1'', JDict [(''outputs'', JDict [(''5'', JNull)])])]))
        (JStr ''job1'') ''5'' = Inl TypeError"
  by (simp add: parse_video_path_from_output_def polling_def get_history_def engine_def
      py_get_key_def py_get_def dict_get_def py_contains_def py_getitem_def)

text \<open>
  C4, amended. On every mapping the extractor returns, whatever the decoder does: either
  no artifact, or a path that ends in one of the media suffixes. It never raises there.
\<close>

theorem parse_video_path_total_on_mappings:
  "parse_video_path_from_output loads (JDict d) = Inr None
   \<or> (\<exists>path. parse_video_path_from_output loads (JDict d) = Inr (Some path)
         \<and> list_ex (endswith path) media_suffixes)"
proof -
  from parse_video_path_dict [of loads d] show ?thesis
  proof
    assume "parse_video_path_from_output loads (JDict d) = Inr None"
    then show ?thesis ..
  next
    assume "\<exists>v. parse_video_path_from_output loads (JDict d) = Inr (parse_stringified loads v)"
    then obtain v where eq: "parse_video_path_from_output loads (JDict d) = Inr (parse_stringified loads v)"
      ..
    show ?thesis
    proof (cases "parse_stringified loads v")
      case None
      with eq show ?thesis by simp
    next
      case (Some path)
      then have "list_ex (endswith path) media_suffixes"
        by (rule parse_stringified_suffix)
      with eq Some show ?thesis by simp
    qed
  qed
qed

text \<open>
  C5. When the first element of the payload's \<^verbatim>\<open>text\<close> list is a string that the decoder
  reads as a list of at least two elements whose second element is a list, the extractor
  returns the first element of that second list that is a string with a media suffix
  (and no artifact when there is none).
\<close>

theorem parse_video_path_first_match:
  assumes "map_of d ''text'' = Some (JList (JStr s # later))"
    and "loads s = Inr (JList (first # JList paths # others))"
  shows "\<exists>r. parse_video_path_from_output loads (JDict d) = Inr r
              \<and> map_option JStr r = List.find is_video_path paths"
proof -
  from assms have "parse_video_path_from_output loads (JDict d) = Inr (first_video_path paths)"
    by (simp add: parse_video_path_from_output_def parse_stringified_def json_loads_value_def)
  then show ?thesis
    using first_video_path_find [of paths] by blast
qed

text \<open>Scenario B: the payload of the specification, read by the reference decoder.\<close>

lemma json_loads_scenario:
  "json_loads ''[\"ignored\", [\"/out/video.mp4\"]]''
     = Inr (JList [JStr ''ignored'', JList [JStr ''/out/video.mp4'']])"
  by (simp add: json_loads_def dquote_def is_ws_def)

theorem parse_video_path_first_match_witness:
  "parse_video_path_from_output json_loads
     (JDict [(''text'', JList [JStr ''[\"ignored\", [\"/out/video.mp4\"]]''])])
   = Inr (Some ''/out/video.mp4'')"
proof -
  have field: "map_of [(''text'', JList [JStr ''[\"ignored\", [\"/out/video.mp4\"]]''])] ''text''
      = Some (JList (JStr ''[\"ignored\", [\"/out/video.mp4\"]]'' # []))"
    by simp
  have found: "List.find is_video_path [JStr ''/out/video.mp4''] = Some (JStr ''/out/video.mp4'')"
    by (simp add: is_video_path_def media_suffixes_def endswith_def)
  from parse_video_path_first_match
    [where loads = json_loads and later = "[]" and first = "JStr ''ignored''" and others = "[]",
      OF field json_loads_scenario]
  obtain r where "parse_video_path_from_output json_loads
      (JDict [(''text'', JList [JStr ''[\"ignored\", [\"/out/video.mp4\"]]''])]) = Inr r"
    and "map_option JStr r = List.find is_video_path [JStr ''/out/video.mp4'']"
    by blast
  with found show ?thesis by (cases r) auto
qed

section \<open>Properties of the completion watcher\<close>

lemma listening_step:
  assumes "listening loads target ((delay, out) # later) waited = Some (r, elapsed)"
  shows "elapsed = waited + ws_timeout
         \<or> (delay < ws_timeout \<and> elapsed = waited + delay)
         \<or> (delay < ws_timeout
              \<and> listening loads target later (waited + delay) = Some (r, elapsed))"
proof (cases "ws_timeout \<le> delay")
  case True
  with assms show ?thesis by simp
next
  case False
  with assms show ?thesis
    by (cases out) (auto split: sum.splits bool.splits)
qed

lemma listening_wait_bound:
  "listening loads target arrivals waited = Some (r, elapsed)
   \<Longrightarrow> elapsed \<le> waited + ws_timeout * length arrivals"
proof (induction arrivals arbitrary: waited)
  case Nil
  then show ?case by simp
next
  case (Cons arrival arrivals)
  obtain delay out where arrival: "arrival = (delay, out)" by (cases arrival)
  from Cons.prems have "listening loads target ((delay, out) # arrivals) waited = Some (r, elapsed)"
    by (simp only: arrival)
  then consider "elapsed = waited + ws_timeout"
    | "delay < ws_timeout" and "elapsed = waited + delay"
    | "delay < ws_timeout" and "listening loads target arrivals (waited + delay) = Some (r, elapsed)"
    using listening_step by blast
  then show ?case
  proof cases
    case 1
    then show ?thesis by simp
  next
    case 2
    then show ?thesis by simp
  next
    case 3
    from 3(2) have "elapsed \<le> waited + delay + ws_timeout * length arrivals"
      by (rule Cons.IH)
    with 3(1) show ?thesis by simp
  qed
qed

lemma listening_discards:
  "delay < ws_timeout \<Longrightarrow> loads s = Inr message
   \<Longrightarrow> is_target_executed message target = Inr False
   \<Longrightarrow> listening loads target ((delay, Text s) # later) waited
       = listening loads target later (waited + delay)"
  by simp

lemma json_loads_progress:
  "json_loads progress_event
     = Inr (JDict [(''type'', JStr ''progress''),
                   (''data'', JDict [(''value'', JInt 1), (''max'', JInt 20)])])"
  by (simp add: json_loads_def progress_event_def dquote_def is_ws_def is_digit_def
      scan_number_def)

lemma json_loads_executed:
  "json_loads executed_event
     = Inr (JDict [(''type'', JStr ''executed''),
                   (''data'', JDict [(''node'', JStr ''5''), (''output'', video_payload)])])"
  by (simp add: json_loads_def executed_event_def video_payload_def dquote_def is_ws_def)

lemma parse_video_payload:
  "parse_video_path_from_output json_loads video_payload = Inr (Some ''/out/video.mp4'')"
  by (simp add: video_payload_def parse_video_path_from_output_def parse_stringified_def
      json_loads_value_def json_loads_scenario media_suffixes_def endswith_def)

lemma progress_not_target:
  "is_target_executed
     (JDict [(''type'', JStr ''progress''),
             (''data'', JDict [(''value'', JInt 1), (''max'', JInt 20)])]) ''5'' = Inr False"
  by (simp add: is_target_executed_def py_get_def dict_get_def)

lemma executed_is_target:
  "is_target_executed
     (JDict [(''type'', JStr ''executed''),
             (''data'', JDict [(''node'', JStr ''5''), (''output'', video_payload)])]) ''5''
     = Inr True"
  "event_output
     (JDict [(''type'', JStr ''executed''),
             (''data'', JDict [(''node'', JStr ''5''), (''output'', video_payload)])])
     = Inr video_payload"
  by (simp_all add: is_target_executed_def event_output_def py_get_def dict_get_def)

lemma listening_progress:
  "listening json_loads ''5'' ((200, Text progress_event) # later) waited
     = listening json_loads ''5'' later (waited + 200)"
  by (simp add: ws_timeout_def json_loads_progress progress_not_target)

lemma listening_executed:
  "listening json_loads ''5'' ((200, Text executed_event) # later) waited
     = Some (Inr (Some ''/out/video.mp4''), waited + 200)"
  by (simp add: ws_timeout_def json_loads_executed executed_is_target parse_video_payload)

lemma listening_two_progress_then_executed:
  "listening json_loads ''5''
     [(200, Text progress_event), (200, Text progress_event), (200, Text executed_event)] 0
   = Some (Inr (Some ''/out/video.mp4''), 600)"
  by (simp only: listening_progress listening_executed) simp

text \<open>
  C2, as the claim states it, fails: two progress events that arrive 200 seconds apart
  keep the loop reading, and the matching event is taken after 600 seconds, twice the
  timeout of 300 seconds. Each event restarts the wait.
\<close>

theorem listening_wait_exceeds_timeout:
  "listening json_loads ''5''
     [(200, Text progress_event), (200, Text progress_event), (200, Text executed_event)] 0
   = Some (Inr (Some ''/out/video.mp4''), 600)
   \<and> ws_timeout < 600"
  by (rule conjI, rule listening_two_progress_then_executed, simp add: ws_timeout_def)

text \<open>
  C2, amended. An event that is not an \<^verbatim>\<open>executed\<close> event of the target node is
  discarded and the loop reads on, the seconds it took added to the wait; the timeout
  bounds each single read, so the wait of the push phase is at most the timeout times the
  number of reads.
\<close>

theorem listening_discards_and_bounds_each_read:
  "(delay < ws_timeout \<and> loads s = Inr message
      \<and> is_target_executed message target = Inr False
    \<longrightarrow> listening loads target ((delay, Text s) # later) waited
        = listening loads target later (waited + delay))
   \<and> (listening loads target arrivals waited = Some (r, elapsed)
    \<longrightarrow> elapsed \<le> waited + ws_timeout * length arrivals)"
  using listening_discards [of delay loads s message target later waited]
    listening_wait_bound [of loads target arrivals waited r elapsed]
  by blast

theorem listening_discards_and_bounds_each_read_witness:
  "listening json_loads ''5''
     ((200, Text progress_event) # [(200, Text progress_event), (200, Text executed_event)]) 0
   = listening json_loads ''5'' [(200, Text progress_event), (200, Text executed_event)] (0 + 200)
   \<and> (600::nat) \<le> 0 + ws_timeout * length
        [(200::nat, Text progress_event), (200, Text progress_event), (200, Text executed_event)]"
proof -
  have early: "(200::nat) < ws_timeout"
    by (simp add: ws_timeout_def)
  note inst = listening_discards_and_bounds_each_read
    [of 200 json_loads progress_event
      "JDict [(''type'', JStr ''progress''),
              (''data'', JDict [(''value'', JInt 1), (''max'', JInt 20)])]"
      "''5''" "[(200, Text progress_event), (200, Text executed_event)]" 0
      "[(200, Text progress_event), (200, Text progress_event), (200, Text executed_event)]"
      "Inr (Some ''/out/video.mp4'')" 600]
  from inst early json_loads_progress progress_not_target listening_two_progress_then_executed
  show ?thesis by blast
qed

end
